theory Spec2Isabelle
  imports Main "HOL-Library.Sublist"
begin

section \<open>Exceptions\<close>

text \<open>
  The exception classes that \<open>page_base.py\<close> raises, catches or lists: Python's
  \<open>Exception\<close> and \<open>IndexError\<close>, the module's own \<open>NotClickableException\<close>, and the
  driver library's exceptions named in the \<open>retry\<close> and \<open>ignored_exceptions\<close> lists.
  \<open>WebDriverException\<close> stands for any other error of the driver.
\<close>

datatype exn_class =
    Exception
  | IndexError
  | NotClickableException
  | WebDriverException
  | NoSuchElementException
  | StaleElementReferenceException
  | ElementNotVisibleException
  | ElementNotSelectableException
  | TimeoutException

text \<open>An exception object: its class and the message it was constructed with.\<close>

datatype exn = Exn (cls: exn_class) (msg: string)

text \<open>
  \<open>str(e)\<close>: Python's own exceptions print their message; the driver library's
  exceptions print it as \<open>Message: ...\<close> followed by a newline.
\<close>

definition exn_str :: "exn \<Rightarrow> string" where
  "exn_str e =
     (if cls e \<in> {Exception, IndexError, NotClickableException} then msg e
      else ''Message: '' @ msg e @ [CHR 0x0A])"

section \<open>Strings\<close>

text \<open>\<open>sub in s\<close> on Python strings: \<open>sub\<close> occurs in \<open>s\<close> as a contiguous substring.\<close>

fun str_in :: "string \<Rightarrow> string \<Rightarrow> bool" where
  "str_in sub [] = (sub = [])"
| "str_in sub (c # cs) = (prefix sub (c # cs) \<or> str_in sub cs)"

text \<open>
  \<open>s.split("@@")\<close>: the string is scanned from the left, every occurrence of the
  separator found that way ends a part, and scanning resumes behind it. The accumulator
  holds the current part, reversed.
\<close>

fun split_acc :: "string \<Rightarrow> string \<Rightarrow> string list" where
  "split_acc acc [] = [rev acc]"
| "split_acc acc [c] = [rev (c # acc)]"
| "split_acc acc (a # b # cs) =
     (if a = CHR ''@'' \<and> b = CHR ''@'' then rev acc # split_acc [] cs
      else split_acc (a # acc) (b # cs))"

definition split_sep :: "string \<Rightarrow> string list" where
  "split_sep s = split_acc [] s"

section \<open>Locator resolver\<close>

text \<open>The enum \<open>Strategy\<close> and the value of each member.\<close>

datatype Strategy = XPATH | ID | CSS | TAGNAME

fun Strategy_value :: "Strategy \<Rightarrow> string" where
  "Strategy_value XPATH = ''xpath''"
| "Strategy_value ID = ''id''"
| "Strategy_value CSS = ''css''"
| "Strategy_value TAGNAME = ''tag name''"

text \<open>The members of the driver library's \<open>By\<close> that the resolver returns.\<close>

datatype by_t = By_XPATH | By_ID | By_CSS_SELECTOR | By_TAG_NAME

text \<open>
  \<open>PageBase.__get_by\<close>. A locator without the separator gets the prefix \<open>id@@\<close>; the
  string is split at the separator, part 0 is the strategy and part 1 the value (a
  missing part 1 would be an \<open>IndexError\<close>); an unknown strategy raises \<open>Exception\<close>.
\<close>

definition get_by :: "string \<Rightarrow> exn + (by_t \<times> string)" where
  "get_by locator_with_strategy =
     (let lws = (if \<not> str_in ''@@'' locator_with_strategy
                 then Strategy_value ID @ ''@@'' @ locator_with_strategy
                 else locator_with_strategy)
      in case split_sep lws of
           strategy # locator # _ \<Rightarrow>
             if strategy = Strategy_value XPATH then Inr (By_XPATH, locator)
             else if strategy = Strategy_value ID then Inr (By_ID, locator)
             else if strategy = Strategy_value CSS then Inr (By_CSS_SELECTOR, locator)
             else if strategy = Strategy_value TAGNAME then Inr (By_TAG_NAME, locator)
             else Inl (Exn Exception
               ('' Incorrect locator specified . Locator has to be either xpath,id,css,tagname -->''
                  @ lws))
         | _ \<Rightarrow> Inl (Exn IndexError ''list index out of range''))"

text \<open>The \<open>By\<close> member that each strategy is resolved to.\<close>

fun By_of :: "Strategy \<Rightarrow> by_t" where
  "By_of XPATH = By_XPATH"
| "By_of ID = By_ID"
| "By_of CSS = By_CSS_SELECTOR"
| "By_of TAGNAME = By_TAG_NAME"

section \<open>The browser, the clock and the driver\<close>

text \<open>A \<open>WebElement\<close> handle of the driver library, identified by a number.\<close>

datatype element = WebElement nat

text \<open>The expected conditions that the modelled waits hand to the driver's wait.\<close>

datatype condition = presence_of_element_located | visibility_of_element_located

text \<open>
  What the program does to the outside world: it sleeps and it calls the driver. Each
  such step is recorded, in order, next to a clock in milliseconds. The clock advances
  when the program sleeps; the time that a call of the driver takes is not counted.
\<close>

datatype event =
    Slept nat
  | Polled condition by_t string
  | Clicked element
  | SentKeys element "string list"
  | Cleared element
  | GotAttribute element string
  | AskedDisplayed element

record world =
  clock :: nat
  events :: "event list"

text \<open>
  The driver and its elements are external: their answers are parameters of the model.
  An answer may depend on the world at the moment of the call (the time and everything
  done so far), so that a page can change with time and an element can fail on the
  first calls only.
\<close>

record driver =
  poll :: "condition \<Rightarrow> by_t \<times> string \<Rightarrow> world \<Rightarrow> exn + element option"
  el_click :: "element \<Rightarrow> world \<Rightarrow> exn + unit"
  el_clear :: "element \<Rightarrow> world \<Rightarrow> exn + unit"
  el_send_keys :: "element \<Rightarrow> string list \<Rightarrow> world \<Rightarrow> exn + unit"
  el_get_attribute :: "element \<Rightarrow> string \<Rightarrow> world \<Rightarrow> exn + string option"
  el_is_displayed :: "element \<Rightarrow> world \<Rightarrow> exn + bool"
  el_repr :: "element \<Rightarrow> string"

definition logged :: "event \<Rightarrow> world \<Rightarrow> world" where
  "logged ev w = w\<lparr>events := events w @ [ev]\<rparr>"

text \<open>\<open>sleep(seconds)\<close>, here in milliseconds.\<close>

definition sleep :: "nat \<Rightarrow> world \<Rightarrow> world" where
  "sleep ms w = w\<lparr>clock := clock w + ms, events := events w @ [Slept ms]\<rparr>"

text \<open>A call of the driver: the world answers, and the call is recorded.\<close>

definition call :: "(world \<Rightarrow> exn + 'a) \<Rightarrow> event \<Rightarrow> world \<Rightarrow> (exn + 'a) \<times> world" where
  "call answer ev w = (answer w, logged ev w)"

text \<open>Sequencing of two steps: an exception of the first skips the second.\<close>

definition and_then ::
  "(world \<Rightarrow> (exn + 'a) \<times> world) \<Rightarrow> ('a \<Rightarrow> world \<Rightarrow> (exn + 'b) \<times> world) \<Rightarrow>
   world \<Rightarrow> (exn + 'b) \<times> world" where
  "and_then m k w = (case m w of (Inl e, w') \<Rightarrow> (Inl e, w') | (Inr a, w') \<Rightarrow> k a w')"

text \<open>\<open>"{}".format(n)\<close> for a natural number.\<close>

fun show_nat :: "nat \<Rightarrow> string" where
  "show_nat n =
     (if n < 10 then [''0123456789'' ! n]
      else show_nat (n div 10) @ [''0123456789'' ! (n mod 10)])"

section \<open>The driver library's wait and the retry decorator\<close>

text \<open>
  Modelled from the spec: \<open>WebDriverWait(driver, timeout, ignored_exceptions).until\<close>
  belongs to the driver library, which is not part of the repository. It is given the
  condition to call, here \<open>probe\<close>, and a message. It
  polls the condition at a fixed interval of half a second: a truthy answer is
  returned; an exception of an ignored class and a falsy answer are absorbed; any other
  exception ends the wait; after each absorbed poll it sleeps, and once the clock has
  passed the end time it raises \<open>TimeoutException\<close> with the message it was given.
\<close>

function until_loop ::
  "exn_class list \<Rightarrow> nat \<Rightarrow> (world \<Rightarrow> exn + 'a option) \<Rightarrow> event \<Rightarrow> string \<Rightarrow>
   world \<Rightarrow> (exn + 'a) \<times> world" where
  "until_loop ignored end_time probe ev message w =
     (case probe w of
        Inr (Some v) \<Rightarrow> (Inr v, logged ev w)
      | Inr None \<Rightarrow>
          (if end_time < clock (sleep 500 (logged ev w))
           then (Inl (Exn TimeoutException message), sleep 500 (logged ev w))
           else until_loop ignored end_time probe ev message (sleep 500 (logged ev w)))
      | Inl e \<Rightarrow>
          (if cls e \<notin> set ignored then (Inl e, logged ev w)
           else if end_time < clock (sleep 500 (logged ev w))
           then (Inl (Exn TimeoutException message), sleep 500 (logged ev w))
           else until_loop ignored end_time probe ev message (sleep 500 (logged ev w))))"
  by pat_completeness auto
termination
  by (relation "measure (\<lambda>(ignored, end_time, probe, ev, message, w). Suc end_time - clock w)")
     (auto simp: sleep_def logged_def)

declare until_loop.simps [simp del]

text \<open>
  The wait object always ignores \<open>NoSuchElementException\<close>, next to the classes it is
  given; the timeout is in seconds and counts from the start of the wait.
\<close>

definition until ::
  "exn_class list \<Rightarrow> nat \<Rightarrow> (world \<Rightarrow> exn + 'a option) \<Rightarrow> event \<Rightarrow> string \<Rightarrow>
   world \<Rightarrow> (exn + 'a) \<times> world" where
  "until ignored_exceptions timeout probe ev message w =
     until_loop (NoSuchElementException # ignored_exceptions) (clock w + timeout * 1000)
       probe ev message w"

text \<open>
  Modelled from the spec: the decorator \<open>retry(exceptions, tries, delay)\<close> belongs to the
  \<open>retry\<close> package, which is not part of the repository. The decorated function is
  run; an exception of a listed class is absorbed while tries remain, and the function is
  run again after a sleep of \<open>delay\<close> seconds; the exception of the last try, and any
  exception of another class, propagates. \<open>tries\<close> counts the runs and is at least 1.
\<close>

fun retry_internal ::
  "(world \<Rightarrow> (exn + 'a) \<times> world) \<Rightarrow> exn_class list \<Rightarrow> nat \<Rightarrow> nat \<Rightarrow>
   world \<Rightarrow> (exn + 'a) \<times> world" where
  "retry_internal f exceptions tries delay w =
     (case f w of
        (Inr v, w') \<Rightarrow> (Inr v, w')
      | (Inl e, w') \<Rightarrow>
          (if cls e \<in> set exceptions \<and> 1 < tries
           then retry_internal f exceptions (tries - 1) delay (sleep (delay * 1000) w')
           else (Inl e, w')))"

declare retry_internal.simps [simp del]

section \<open>The page base\<close>

text \<open>
  A locator argument: the methods test it with \<open>isinstance\<close> for a string and for a
  \<open>WebElement\<close>; \<open>Other\<close> is any other object that is not a container (as \<open>None\<close> or
  a number), given by its \<open>str()\<close> and by the name of its type.
\<close>

datatype locator_arg = Str string | Elem element | Other string string

text \<open>
  \<open>PageBase.find_element\<close>: waits for the presence of the element; every exception,
  also that of the resolver and the timeout, is replaced by an \<open>Exception\<close> whose message
  holds the locator and the text of the original exception.
\<close>

definition find_element ::
  "driver \<Rightarrow> string \<Rightarrow> nat \<Rightarrow> world \<Rightarrow> (exn + element) \<times> world" where
  "find_element d locator timeout w =
     (case (case get_by locator of
              Inl e \<Rightarrow> (Inl e, w)
            | Inr by \<Rightarrow>
                until [] timeout (poll d presence_of_element_located by)
                  (Polled presence_of_element_located (fst by) (snd by))
                  (''Timed out after '' @ show_nat timeout
                     @ '' seconds while waiting to find the element with locator ''
                     @ locator @ '' '') w) of
        (Inl e, w') \<Rightarrow>
          (Inl (Exn Exception (''Could Not Find Element with locator '' @ locator
                  @ '' due to error '' @ exn_str e @ '' '')), w')
      | (Inr el, w') \<Rightarrow> (Inr el, w'))"

text \<open>
  \<open>PageBase.wait_till_element_is_present\<close>: the same wait without a message; an
  exception is raised again as it is.
\<close>

definition wait_till_element_is_present ::
  "driver \<Rightarrow> string \<Rightarrow> nat \<Rightarrow> world \<Rightarrow> (exn + element) \<times> world" where
  "wait_till_element_is_present d locator timeout w =
     (case get_by locator of
        Inl e \<Rightarrow> (Inl e, w)
      | Inr by \<Rightarrow>
          until [] timeout (poll d presence_of_element_located by)
            (Polled presence_of_element_located (fst by) (snd by)) [] w)"

text \<open>
  \<open>PageBase.wait_till_element_is_visible\<close>: waits for visibility, with four ignored
  exception classes.
\<close>

definition wait_till_element_is_visible ::
  "driver \<Rightarrow> string \<Rightarrow> nat \<Rightarrow> world \<Rightarrow> (exn + element) \<times> world" where
  "wait_till_element_is_visible d locator timeout w =
     (case get_by locator of
        Inl e \<Rightarrow> (Inl e, w)
      | Inr by \<Rightarrow>
          until [NoSuchElementException, ElementNotVisibleException,
                 ElementNotSelectableException, StaleElementReferenceException]
            timeout (poll d visibility_of_element_located by)
            (Polled visibility_of_element_located (fst by) (snd by)) [] w)"



text \<open>
  The body of \<open>PageBase.click\<close>. \<open>element.click()\<close> runs in a \<open>try\<close>: an exception whose
  text contains \<open>is not clickable\<close> is replaced by \<open>NotClickableException\<close>, any other is
  raised again.
\<close>

definition click_element :: "driver \<Rightarrow> element \<Rightarrow> world \<Rightarrow> (exn + unit) \<times> world" where
  "click_element d el w =
     (case call (el_click d el) (Clicked el) w of
        (Inl e, w') \<Rightarrow>
          (if str_in ''is not clickable'' (exn_str e)
           then (Inl (Exn NotClickableException []), w')
           else (Inl e, w'))
      | (Inr u, w') \<Rightarrow> (Inr (), w'))"

definition click_body :: "driver \<Rightarrow> locator_arg \<Rightarrow> world \<Rightarrow> (exn + unit) \<times> world" where
  "click_body d locator w =
     (case locator of
        Str s \<Rightarrow> and_then (find_element d s 5) (click_element d) w
      | Elem el \<Rightarrow> click_element d el w
      | Other r t \<Rightarrow>
          (Inl (Exn Exception (''Could not click on the element with locator '' @ r)), w))"

text \<open>\<open>PageBase.click\<close>, with its decorator.\<close>

definition click :: "driver \<Rightarrow> locator_arg \<Rightarrow> world \<Rightarrow> (exn + unit) \<times> world" where
  "click d locator =
     retry_internal (click_body d locator)
       [StaleElementReferenceException, ElementNotVisibleException, NotClickableException] 5 2"

text \<open>\<open>Keys.CONTROL\<close>, the code point U+E009 in UTF-8.\<close>

definition Keys_CONTROL :: string where
  "Keys_CONTROL = [CHR 0xEE, CHR 0x80, CHR 0x89]"

text \<open>
  The body of \<open>PageBase.set_field\<close>: the element is looked up outside the \<open>try\<close>; any
  exception of the five steps inside it is replaced by an \<open>Exception\<close>.
\<close>

definition set_field_body ::
  "driver \<Rightarrow> string \<Rightarrow> string \<Rightarrow> world \<Rightarrow> (exn + element) \<times> world" where
  "set_field_body d locator element_value w =
     (case find_element d locator 5 w of
        (Inl e, w') \<Rightarrow> (Inl e, w')
      | (Inr webelement, w1) \<Rightarrow>
          (case and_then (call (el_send_keys d webelement [Keys_CONTROL, ''a''])
                            (SentKeys webelement [Keys_CONTROL, ''a'']))
                 (\<lambda>_. and_then (call (el_clear d webelement) (Cleared webelement))
                 (\<lambda>_. and_then (\<lambda>w. (Inr (), sleep 1000 w))
                 (\<lambda>_. and_then (call (el_click d webelement) (Clicked webelement))
                 (\<lambda>_. call (el_send_keys d webelement [element_value])
                        (SentKeys webelement [element_value]))))) w1 of
             (Inl e, w') \<Rightarrow>
               (Inl (Exn Exception (''Could not write on the the element ''
                       @ el_repr d webelement @ '' due to '' @ exn_str e)), w')
           | (Inr u, w') \<Rightarrow> (Inr webelement, w')))"

text \<open>\<open>PageBase.set_field\<close>, with its decorator.\<close>

definition set_field ::
  "driver \<Rightarrow> string \<Rightarrow> string \<Rightarrow> world \<Rightarrow> (exn + element) \<times> world" where
  "set_field d locator element_value =
     retry_internal (set_field_body d locator element_value)
       [StaleElementReferenceException] 5 2"

text \<open>
  The body of \<open>PageBase.get_attribute\<close>: a \<open>WebElement\<close> is asked directly, anything else
  is handed to \<open>find_element\<close>. For an object that is not a string, the test
  \<open>"@@" not in locator\<close> of the resolver raises \<open>TypeError\<close> inside the \<open>try\<close> of
  \<open>find_element\<close>, which replaces it by an \<open>Exception\<close>; the driver is not polled.
\<close>

definition get_attribute_body ::
  "driver \<Rightarrow> locator_arg \<Rightarrow> string \<Rightarrow> world \<Rightarrow> (exn + string option) \<times> world" where
  "get_attribute_body d locator attribute w =
     (case locator of
        Elem el \<Rightarrow> call (el_get_attribute d el attribute) (GotAttribute el attribute) w
      | Str s \<Rightarrow>
          and_then (find_element d s 5)
            (\<lambda>el. call (el_get_attribute d el attribute) (GotAttribute el attribute)) w
      | Other r t \<Rightarrow>
          (Inl (Exn Exception (''Could Not Find Element with locator '' @ r
                  @ '' due to error '' @ ''argument of type '' @ [CHR 0x27] @ t @ [CHR 0x27]
                  @ '' is not iterable'' @ '' '')), w))"

text \<open>\<open>PageBase.get_attribute\<close>, with its decorator.\<close>

definition get_attribute ::
  "driver \<Rightarrow> locator_arg \<Rightarrow> string \<Rightarrow> world \<Rightarrow> (exn + string option) \<times> world" where
  "get_attribute d locator attribute =
     retry_internal (get_attribute_body d locator attribute)
       [StaleElementReferenceException] 5 2"

section \<open>Notions used to state the properties\<close>

text \<open>
  The world at the start of poll number \<open>k\<close> (counted from 0) of a wait that began in
  \<open>w\<close>, when every earlier poll was absorbed: each of them was recorded and followed by
  the sleep of half a second.
\<close>

fun polled :: "event \<Rightarrow> nat \<Rightarrow> world \<Rightarrow> world" where
  "polled ev 0 w = w"
| "polled ev (Suc k) w = polled ev k (sleep 500 (logged ev w))"

text \<open>An answer of a poll on which the wait goes on: falsy, or an ignored exception.\<close>

definition absorbed :: "exn_class list \<Rightarrow> exn + 'a option \<Rightarrow> bool" where
  "absorbed ignored r =
     (case r of Inr None \<Rightarrow> True | Inr (Some v) \<Rightarrow> False | Inl e \<Rightarrow> cls e \<in> set ignored)"

text \<open>
  The world at the start of run number \<open>k\<close> (counted from 0) of a decorated function
  \<open>f\<close>, when every earlier run was followed by the sleep of \<open>delay\<close> seconds.
\<close>

fun attempt :: "(world \<Rightarrow> (exn + 'a) \<times> world) \<Rightarrow> nat \<Rightarrow> nat \<Rightarrow> world \<Rightarrow> world" where
  "attempt f delay 0 w = w"
| "attempt f delay (Suc k) w = attempt f delay k (sleep (delay * 1000) (snd (f w)))"

text \<open>A result on which the decorator runs the function again: a listed exception.\<close>

definition transient :: "exn_class list \<Rightarrow> exn + 'a \<Rightarrow> bool" where
  "transient exceptions r = (case r of Inl e \<Rightarrow> cls e \<in> set exceptions | Inr v \<Rightarrow> False)"

text \<open>
  Run number \<open>k\<close> is the last run of the decorated function: it is within the tries,
  every earlier run raised a listed exception, and this run is either the last try or
  does not raise a listed exception.
\<close>

definition final_run ::
  "(world \<Rightarrow> (exn + 'a) \<times> world) \<Rightarrow> exn_class list \<Rightarrow> nat \<Rightarrow> nat \<Rightarrow> nat \<Rightarrow>
   world \<Rightarrow> bool" where
  "final_run f exceptions tries delay k w =
     (k < tries \<and>
      (\<forall>j<k. transient exceptions (fst (f (attempt f delay j w)))) \<and>
      (Suc k = tries \<or> \<not> transient exceptions (fst (f (attempt f delay k w)))))"

text \<open>The poll of the presence condition and the record it leaves.\<close>

abbreviation presence_poll :: "driver \<Rightarrow> by_t \<times> string \<Rightarrow> world \<Rightarrow> exn + element option" where
  "presence_poll d by \<equiv> poll d presence_of_element_located by"

abbreviation presence_event :: "by_t \<times> string \<Rightarrow> event" where
  "presence_event by \<equiv> Polled presence_of_element_located (fst by) (snd by)"

text \<open>The poll of the visibility condition and the record it leaves.\<close>

abbreviation visibility_poll :: "driver \<Rightarrow> by_t \<times> string \<Rightarrow> world \<Rightarrow> exn + element option" where
  "visibility_poll d by \<equiv> poll d visibility_of_element_located by"

abbreviation visibility_event :: "by_t \<times> string \<Rightarrow> event" where
  "visibility_event by \<equiv> Polled visibility_of_element_located (fst by) (snd by)"

section \<open>Example pages\<close>

text \<open>The world before anything has happened.\<close>

definition start :: world where
  "start = \<lparr>clock = 0, events = []\<rparr>"

text \<open>A page on which no element is ever found.\<close>

definition blank_page :: driver where
  "blank_page =
     \<lparr>poll = (\<lambda>c by w. Inl (Exn NoSuchElementException ''no such element'')),
      el_click = (\<lambda>el w. Inr ()),
      el_clear = (\<lambda>el w. Inr ()),
      el_send_keys = (\<lambda>el ks w. Inr ()),
      el_get_attribute = (\<lambda>el a w. Inr None),
      el_is_displayed = (\<lambda>el w. Inr True),
      el_repr = (\<lambda>el. ''<WebElement>'')\<rparr>"

text \<open>A page on which every lookup finds element 1 at once.\<close>

definition ready_page :: driver where
  "ready_page = blank_page\<lparr>poll := (\<lambda>c by w. Inr (Some (WebElement 1)))\<rparr>"

text \<open>
  A page whose first poll, at time 0, hits a stale element; from the next poll on the
  element is found.
\<close>

definition stale_then_present :: driver where
  "stale_then_present =
     blank_page\<lparr>poll := (\<lambda>c by w.
        if clock w = 0 then Inl (Exn StaleElementReferenceException ''stale element reference'')
        else Inr (Some (WebElement 1)))\<rparr>"

text \<open>A page on which the element appears after one second.\<close>

definition late_page :: driver where
  "late_page =
     blank_page\<lparr>poll := (\<lambda>c by w.
        if clock w < 1000 then Inl (Exn NoSuchElementException ''no such element'')
        else Inr (Some (WebElement 1)))\<rparr>"

text \<open>A page whose driver has lost its browser: every poll raises a driver error.\<close>

definition broken_page :: driver where
  "broken_page =
     blank_page\<lparr>poll := (\<lambda>c by w. Inl (Exn WebDriverException ''chrome not reachable''))\<rparr>"

text \<open>An element that is covered, and not clickable, during the first four seconds.\<close>

definition busy_click :: driver where
  "busy_click =
     ready_page\<lparr>el_click := (\<lambda>el w.
        if clock w < 4000
        then Inl (Exn WebDriverException ''Element <a> is not clickable at point (10, 20)'')
        else Inr ())\<rparr>"

text \<open>An element that stays covered: its click never succeeds.\<close>

definition stuck_click :: driver where
  "stuck_click =
     ready_page\<lparr>el_click := (\<lambda>el w.
        Inl (Exn WebDriverException ''Element <a> is not clickable at point (10, 20)''))\<rparr>"

text \<open>An element whose click fails with a stale reference during the first two seconds.\<close>

definition stale_click :: driver where
  "stale_click =
     ready_page\<lparr>el_click := (\<lambda>el w.
        if clock w < 2000
        then Inl (Exn StaleElementReferenceException ''stale element reference'')
        else Inr ())\<rparr>"

text \<open>An element whose first \<open>send_keys\<close> hits a stale reference; later ones succeed.\<close>

definition stale_keys :: driver where
  "stale_keys =
     ready_page\<lparr>el_send_keys := (\<lambda>el ks w.
        if clock w = 0
        then Inl (Exn StaleElementReferenceException ''stale element reference'')
        else Inr ())\<rparr>"

section \<open>Properties of the wait and of the retry decorator\<close>

subsection \<open>The polling loop\<close>

lemma clock_polled: "clock (polled ev k w) = clock w + 500 * k"
  by (induction k arbitrary: w) (simp_all add: sleep_def logged_def)

lemma polled_Suc_right: "polled ev (Suc k) w = sleep 500 (logged ev (polled ev k w))"
  by (induction k arbitrary: w) simp_all

lemma until_loop_absorbed:
  "absorbed ignored (probe w) \<Longrightarrow>
   until_loop ignored end_time probe ev message w =
     (if end_time < clock w + 500
      then (Inl (Exn TimeoutException message), sleep 500 (logged ev w))
      else until_loop ignored end_time probe ev message (sleep 500 (logged ev w)))"
  by (subst until_loop.simps)
     (auto simp: absorbed_def sleep_def logged_def split: sum.splits option.splits)

lemma until_loop_polls:
  "(\<forall>j<k. absorbed ignored (probe (polled ev j w))) \<Longrightarrow> clock w + 500 * k \<le> end_time \<Longrightarrow>
   until_loop ignored end_time probe ev message w =
   until_loop ignored end_time probe ev message (polled ev k w)"
proof (induction k arbitrary: w)
  case 0
  then show ?case by simp
next
  case (Suc k)
  let ?w' = "sleep 500 (logged ev w)"
  from Suc.prems(1) have a0: "absorbed ignored (probe w)" by force
  have step: "until_loop ignored end_time probe ev message w =
      until_loop ignored end_time probe ev message ?w'"
    using until_loop_absorbed[of ignored probe w end_time ev message] a0 Suc.prems(2) by simp
  have "\<forall>j<k. absorbed ignored (probe (polled ev j ?w'))"
    using Suc.prems(1) by (metis Suc_less_eq polled.simps(2))
  moreover have "clock ?w' + 500 * k \<le> end_time"
    using Suc.prems(2) by (simp add: sleep_def logged_def)
  ultimately show ?case
    using Suc.IH[of ?w'] step by simp
qed

lemma until_loop_found:
  assumes "\<forall>j<k. absorbed ignored (probe (polled ev j w))" "clock w + 500 * k \<le> end_time"
    and "probe (polled ev k w) = Inr (Some v)"
  shows "until_loop ignored end_time probe ev message w = (Inr v, logged ev (polled ev k w))"
  using until_loop_polls[OF assms(1,2)] assms(3)
  by (simp add: until_loop.simps[of _ _ _ _ _ "polled ev k w"])

lemma until_loop_raised:
  assumes "\<forall>j<k. absorbed ignored (probe (polled ev j w))" "clock w + 500 * k \<le> end_time"
    and "probe (polled ev k w) = Inl e" "cls e \<notin> set ignored"
  shows "until_loop ignored end_time probe ev message w = (Inl e, logged ev (polled ev k w))"
  using until_loop_polls[OF assms(1,2)] assms(3,4)
  by (simp add: until_loop.simps[of _ _ _ _ _ "polled ev k w"])

lemma until_loop_timeout:
  assumes "\<forall>j\<le>k. absorbed ignored (probe (polled ev j w))" "clock w + 500 * k \<le> end_time"
    and "end_time < clock w + 500 * Suc k"
  shows "until_loop ignored end_time probe ev message w =
     (Inl (Exn TimeoutException message), polled ev (Suc k) w)"
proof -
  have "\<forall>j<k. absorbed ignored (probe (polled ev j w))" using assms(1) by simp
  from until_loop_polls[OF this assms(2)]
  have "until_loop ignored end_time probe ev message w =
        until_loop ignored end_time probe ev message (polled ev k w)" .
  also have "\<dots> = (Inl (Exn TimeoutException message), sleep 500 (logged ev (polled ev k w)))"
    using until_loop_absorbed[of ignored probe "polled ev k w" end_time ev message] assms(1,3)
    by (simp add: clock_polled)
  finally show ?thesis unfolding polled_Suc_right .
qed

text \<open>The same three outcomes for a wait that starts now, with its timeout in seconds.\<close>

lemma until_found:
  assumes "\<forall>j<k. absorbed (NoSuchElementException # ignored) (probe (polled ev j w))"
    and "k \<le> 2 * timeout" and "probe (polled ev k w) = Inr (Some v)"
  shows "until ignored timeout probe ev message w = (Inr v, logged ev (polled ev k w))"
  unfolding until_def
  using until_loop_found[OF assms(1) _ assms(3), of "clock w + timeout * 1000" message] assms(2)
  by simp

lemma until_raised:
  assumes "\<forall>j<k. absorbed (NoSuchElementException # ignored) (probe (polled ev j w))"
    and "k \<le> 2 * timeout" and "probe (polled ev k w) = Inl e"
    and "cls e \<notin> set (NoSuchElementException # ignored)"
  shows "until ignored timeout probe ev message w = (Inl e, logged ev (polled ev k w))"
  unfolding until_def
  using until_loop_raised[OF assms(1) _ assms(3,4), of "clock w + timeout * 1000" message] assms(2)
  by simp

lemma until_timeout:
  assumes "\<forall>j\<le>2 * timeout. absorbed (NoSuchElementException # ignored) (probe (polled ev j w))"
  shows "until ignored timeout probe ev message w =
     (Inl (Exn TimeoutException message), polled ev (Suc (2 * timeout)) w)"
  unfolding until_def
  using until_loop_timeout[OF assms, of "clock w + timeout * 1000" message]
  by simp

subsection \<open>The retry loop\<close>

lemma retry_settled:
  "\<not> transient exceptions (fst (f w)) \<or> tries \<le> 1 \<Longrightarrow>
   retry_internal f exceptions tries delay w = f w"
  by (subst retry_internal.simps)
     (auto simp: transient_def split: prod.splits sum.splits)

lemma retry_again:
  "transient exceptions (fst (f w)) \<Longrightarrow> 1 < tries \<Longrightarrow>
   retry_internal f exceptions tries delay w =
   retry_internal f exceptions (tries - 1) delay (sleep (delay * 1000) (snd (f w)))"
  by (subst retry_internal.simps)
     (auto simp: transient_def split: prod.splits sum.splits)

lemma retry_runs:
  "(\<forall>j<k. transient exceptions (fst (f (attempt f delay j w)))) \<Longrightarrow> k < tries \<Longrightarrow>
   retry_internal f exceptions tries delay w =
   retry_internal f exceptions (tries - k) delay (attempt f delay k w)"
proof (induction k arbitrary: w tries)
  case 0
  then show ?case by simp
next
  case (Suc k)
  let ?w' = "sleep (delay * 1000) (snd (f w))"
  from Suc.prems(1) have t0: "transient exceptions (fst (f w))" by force
  have step: "retry_internal f exceptions tries delay w =
      retry_internal f exceptions (tries - 1) delay ?w'"
    using retry_again[of exceptions f w tries delay] t0 Suc.prems(2) by simp
  have "\<forall>j<k. transient exceptions (fst (f (attempt f delay j ?w')))"
    using Suc.prems(1) by (metis Suc_less_eq attempt.simps(2))
  moreover have "k < tries - 1" using Suc.prems(2) by simp
  ultimately show ?case
    using Suc.IH[of ?w' "tries - 1"] step by simp
qed

lemma retry_first_settled:
  assumes "\<forall>j<k. transient exceptions (fst (f (attempt f delay j w)))" "k < tries"
    and "\<not> transient exceptions (fst (f (attempt f delay k w)))"
  shows "retry_internal f exceptions tries delay w = f (attempt f delay k w)"
  using retry_runs[OF assms(1,2)] retry_settled[of exceptions f "attempt f delay k w"] assms(3)
  by simp

lemma retry_exhausted:
  assumes "\<forall>j<k. transient exceptions (fst (f (attempt f delay j w)))" "tries = Suc k"
  shows "retry_internal f exceptions tries delay w = f (attempt f delay k w)"
  using retry_runs[OF assms(1), of tries] retry_settled[of exceptions f "attempt f delay k w" 1] assms(2)
  by simp

section \<open>Properties of the locator resolver\<close>

subsection \<open>Splitting at the separator\<close>

lemma split_acc_no_sep: "\<not> str_in ''@@'' s \<Longrightarrow> split_acc acc s = [rev acc @ s]"
  by (induction acc s rule: split_acc.induct) auto

lemma split_acc_first:
  "\<not> str_in ''@@'' (p @ ''@'') \<Longrightarrow>
   split_acc acc (p @ CHR ''@'' # CHR ''@'' # r) = (rev acc @ p) # split_acc [] r"
  by (induction acc p rule: split_acc.induct) auto

lemma split_acc_not_Nil: "split_acc acc s \<noteq> []"
  by (induction acc s rule: split_acc.induct) auto

lemma str_in_sep_append: "str_in ''@@'' (p @ CHR ''@'' # CHR ''@'' # r)"
  by (induction p) auto

text \<open>
  A string that contains the separator has a first occurrence of it: the text \<open>p\<close> before
  it is such that no separator starts inside \<open>p\<close>, also not at its last character.
\<close>

lemma str_in_first_sep:
  "str_in ''@@'' s \<Longrightarrow> \<exists>p r. s = p @ ''@@'' @ r \<and> \<not> str_in ''@@'' (p @ ''@'')"
proof (induction s)
  case Nil
  then show ?case by simp
next
  case (Cons c cs)
  show ?case
  proof (cases "prefix ''@@'' (c # cs)")
    case True
    then obtain r where "c # cs = ''@@'' @ r" by (auto simp: prefix_def)
    then have "c # cs = [] @ ''@@'' @ r \<and> \<not> str_in ''@@'' ([] @ ''@'')" by simp
    then show ?thesis by blast
  next
    case False
    with Cons.prems have "str_in ''@@'' cs" by auto
    with Cons.IH obtain p r where pr: "cs = p @ ''@@'' @ r" "\<not> str_in ''@@'' (p @ ''@'')"
      by blast
    from False pr have "\<not> str_in ''@@'' ((c # p) @ ''@'')"
      by (cases p) (auto simp: prefix_def)
    with pr(1) have "c # cs = (c # p) @ ''@@'' @ r \<and> \<not> str_in ''@@'' ((c # p) @ ''@'')"
      by simp
    then show ?thesis by blast
  qed
qed

lemma split_sep_first:
  "\<not> str_in ''@@'' (p @ ''@'') \<Longrightarrow>
   split_sep (p @ CHR ''@'' # CHR ''@'' # r) = p # split_sep r"
  by (simp add: split_sep_def split_acc_first)

lemma split_sep_no_sep: "\<not> str_in ''@@'' s \<Longrightarrow> split_sep s = [s]"
  by (simp add: split_sep_def split_acc_no_sep)

lemma split_sep_not_Nil: "split_sep s \<noteq> []"
  by (simp add: split_sep_def split_acc_not_Nil)

lemma token_no_sep: "\<not> str_in ''@@'' (Strategy_value st @ ''@'')"
  by (cases st) simp_all

subsection \<open>The resolver on a string with a separator\<close>

lemma get_by_split:
  assumes "\<not> str_in ''@@'' (p @ ''@'')"
  shows "get_by (p @ CHR ''@'' # CHR ''@'' # r) =
     (if p = ''xpath'' then Inr (By_XPATH, hd (split_sep r))
      else if p = ''id'' then Inr (By_ID, hd (split_sep r))
      else if p = ''css'' then Inr (By_CSS_SELECTOR, hd (split_sep r))
      else if p = ''tag name'' then Inr (By_TAG_NAME, hd (split_sep r))
      else Inl (Exn Exception
        ('' Incorrect locator specified . Locator has to be either xpath,id,css,tagname -->''
           @ p @ CHR ''@'' # CHR ''@'' # r)))"
proof -
  obtain x xs where "split_sep r = x # xs"
    using split_sep_not_Nil[of r] by (cases "split_sep r") auto
  then show ?thesis
    unfolding get_by_def Let_def
    by (simp only: str_in_sep_append split_sep_first[OF assms] not_True_eq_False if_False
          list.case list.sel Strategy_value.simps)
qed

lemma get_by_token:
  "get_by (Strategy_value st @ CHR ''@'' # CHR ''@'' # r) = Inr (By_of st, hd (split_sep r))"
  using get_by_split[OF token_no_sep, of st r] by (cases st) simp_all

lemma get_by_plain: "\<not> str_in ''@@'' s \<Longrightarrow> get_by s = Inr (By_ID, s)"
proof -
  assume h: "\<not> str_in ''@@'' s"
  have "split_sep (''id'' @ CHR ''@'' # CHR ''@'' # s) = [''id'', s]"
    using split_sep_first[of "''id''" s] split_sep_no_sep[OF h] by simp
  then show ?thesis
    using h by (simp add: get_by_def Let_def del: str_in.simps)
qed

text \<open>
  Claim C1. A locator made of one of the four strategy tokens, the separator and a
  remainder that holds no further separator resolves to that strategy, paired with the
  whole remainder.
\<close>

theorem get_by_one_separator:
  "\<not> str_in ''@@'' v \<Longrightarrow> get_by (Strategy_value st @ ''@@'' @ v) = Inr (By_of st, v)"
  by (simp add: get_by_token split_sep_no_sep del: str_in.simps)

theorem get_by_one_separator_witness:
  "\<not> str_in ''@@'' ''//div[@id='x']'' \<and>
   get_by ''xpath@@//div[@id='x']'' = Inr (By_XPATH, ''//div[@id='x']'')"
  using get_by_one_separator[of "''//div[@id='x']''" XPATH] by simp

text \<open>
  Claim C2. A locator without the separator resolves to the strategy \<open>id\<close>, paired with
  the whole input string.
\<close>

theorem get_by_no_separator:
  "\<not> str_in ''@@'' s \<Longrightarrow> get_by s = Inr (By_ID, s)"
  by (rule get_by_plain)

theorem get_by_no_separator_witness:
  "\<not> str_in ''@@'' ''myid'' \<and> get_by ''myid'' = Inr (By_ID, ''myid'')"
  using get_by_no_separator[of "''myid''"] by simp

text \<open>
  Claim C3. When the text before the first separator of a locator is not, character for
  character, one of \<open>xpath\<close>, \<open>id\<close>, \<open>css\<close>, \<open>tag name\<close>, the resolver raises the
  incorrect-locator error, whose message ends with the locator. (That \<open>p\<close> is the text
  before the first separator is the hypothesis that no separator starts inside \<open>p@\<close>;
  by \<open>str_in_first_sep\<close> every string with a separator has this form.)
\<close>

theorem get_by_unknown_strategy:
  "\<not> str_in ''@@'' (p @ ''@'') \<Longrightarrow> p \<notin> {''xpath'', ''id'', ''css'', ''tag name''} \<Longrightarrow>
   get_by (p @ ''@@'' @ r) = Inl (Exn Exception
     ('' Incorrect locator specified . Locator has to be either xpath,id,css,tagname -->''
        @ p @ ''@@'' @ r))"
  using get_by_split[of p r] by simp

theorem get_by_unknown_strategy_witness:
  "\<not> str_in ''@@'' (''XPATH'' @ ''@'') \<and>
   ''XPATH'' \<notin> {''xpath'', ''id'', ''css'', ''tag name''} \<and>
   get_by ''XPATH@@foo'' = Inl (Exn Exception
     '' Incorrect locator specified . Locator has to be either xpath,id,css,tagname -->XPATH@@foo'')"
  using get_by_unknown_strategy[of "''XPATH''" "''foo''"] by simp

text \<open>
  Claim C4, as stated, fails: the resolver never looks at the value part, so \<open>xpath@@\<close>
  and the empty string are resolved, with an empty value.
\<close>

theorem get_by_empty_value_counterexample:
  "get_by ''xpath@@'' = Inr (By_XPATH, []) \<and> get_by [] = Inr (By_ID, [])"
  by (simp add: get_by_def split_sep_def)

text \<open>
  Claim C4, amended. A locator whose value part is empty is resolved to the strategy and
  the empty value when its strategy token is valid or absent; the resolver rejects a
  locator only when it holds a separator and the text before the first one is not a
  strategy token, and then with the incorrect-locator error.
\<close>

theorem get_by_rejects_only_strategy:
  "get_by (Strategy_value st @ ''@@'') = Inr (By_of st, []) \<and>
   get_by [] = Inr (By_ID, []) \<and>
   (get_by s = Inl e \<longrightarrow>
      cls e = Exception \<and>
      (\<exists>p r. s = p @ ''@@'' @ r \<and> \<not> str_in ''@@'' (p @ ''@'') \<and>
             p \<notin> {''xpath'', ''id'', ''css'', ''tag name''}))"
proof (intro conjI impI)
  show "get_by (Strategy_value st @ ''@@'') = Inr (By_of st, [])"
    using get_by_token[of st "[]"] by (simp add: split_sep_def)
  show "get_by [] = Inr (By_ID, [])"
    using get_by_plain[of "[]"] by simp
next
  assume rej: "get_by s = Inl e"
  have "str_in ''@@'' s"
    using rej get_by_plain[of s] by auto
  then obtain p r where pr: "s = p @ ''@@'' @ r" "\<not> str_in ''@@'' (p @ ''@'')"
    using str_in_first_sep by blast
  have *: "cls e = Exception \<and> p \<notin> {''xpath'', ''id'', ''css'', ''tag name''}"
    using rej get_by_split[OF pr(2), of r] pr(1) by (auto split: if_splits)
  then show "cls e = Exception" by simp
  from * pr show "\<exists>p r. s = p @ ''@@'' @ r \<and> \<not> str_in ''@@'' (p @ ''@'') \<and>
            p \<notin> {''xpath'', ''id'', ''css'', ''tag name''}"
    by blast
qed

theorem get_by_rejects_only_strategy_witness:
  "get_by ''bogus@@'' = Inl (Exn Exception
     '' Incorrect locator specified . Locator has to be either xpath,id,css,tagname -->bogus@@'') \<and>
   (\<exists>p r. ''bogus@@'' = p @ ''@@'' @ r \<and> \<not> str_in ''@@'' (p @ ''@'') \<and>
          p \<notin> {''xpath'', ''id'', ''css'', ''tag name''})"
proof -
  have rej: "get_by ''bogus@@'' = Inl (Exn Exception
     '' Incorrect locator specified . Locator has to be either xpath,id,css,tagname -->bogus@@'')"
    by (simp add: get_by_def split_sep_def)
  with get_by_rejects_only_strategy[of XPATH "''bogus@@''"] show ?thesis
    by blast
qed

text \<open>
  Claim C10. With a valid strategy token and two or more separators, the value is the
  text between the first and the second separator; what follows the second separator
  is dropped, and nothing is rejected.
\<close>

theorem get_by_extra_separators:
  "\<not> str_in ''@@'' (v @ ''@'') \<Longrightarrow>
   get_by (Strategy_value st @ ''@@'' @ v @ ''@@'' @ rest) = Inr (By_of st, v)"
  by (simp add: get_by_token split_sep_first del: str_in.simps)

theorem get_by_extra_separators_witness:
  "\<not> str_in ''@@'' (''a'' @ ''@'') \<and>
   get_by ''tag name@@a@@b@@c'' = Inr (By_TAG_NAME, ''a'')"
  using get_by_extra_separators[of "''a''" TAGNAME "''b@@c''"] by simp

section \<open>Properties of the waits\<close>

lemma get_by_id_x: "get_by ''id@@x'' = Inr (By_ID, ''x'')"
  by (simp add: get_by_def split_sep_def)

text \<open>
  Claim C7, as stated, fails: when the element never appears,
  \<open>wait_till_element_is_present\<close> raises the driver's \<open>TimeoutException\<close> with an empty
  message, which names neither the locator nor the condition.
\<close>

theorem timeout_without_locator_counterexample:
  "wait_till_element_is_present blank_page ''id@@x'' 1 start =
     (Inl (Exn TimeoutException []),
      \<lparr>clock = 1500, events = [Polled presence_of_element_located By_ID ''x'', Slept 500,
         Polled presence_of_element_located By_ID ''x'', Slept 500,
         Polled presence_of_element_located By_ID ''x'', Slept 500]\<rparr>) \<and>
   \<not> str_in ''x'' (exn_str (Exn TimeoutException []))"
  by (simp add: wait_till_element_is_present_def get_by_def split_sep_def until_def
        until_loop.simps blank_page_def start_def sleep_def logged_def exn_str_def)

text \<open>
  Claim C7, amended. For a locator that resolves, \<open>find_element\<close> and
  \<open>wait_till_element_is_present\<close> return the element of the first poll that finds it,
  when that poll is one of the polls \<open>0 \<dots> 2 * timeout\<close> (one every half second) and
  the polls before it found nothing. When none of these polls finds the element, both
  fail after \<open>2 * timeout + 1\<close> polls: \<open>find_element\<close> with an \<open>Exception\<close> whose message
  holds the locator and the text of the timeout (seconds and locator),
  \<open>wait_till_element_is_present\<close> with a \<open>TimeoutException\<close> whose message is empty.
\<close>

theorem presence_wait_outcomes:
  assumes "get_by locator = Inr by"
  shows
  "((\<forall>j<k. absorbed [NoSuchElementException] (presence_poll d by (polled (presence_event by) j w))) \<and>
    k \<le> 2 * timeout \<and>
    presence_poll d by (polled (presence_event by) k w) = Inr (Some el) \<longrightarrow>
    find_element d locator timeout w =
      (Inr el, logged (presence_event by) (polled (presence_event by) k w)) \<and>
    wait_till_element_is_present d locator timeout w =
      (Inr el, logged (presence_event by) (polled (presence_event by) k w))) \<and>
   ((\<forall>j\<le>2 * timeout.
       absorbed [NoSuchElementException] (presence_poll d by (polled (presence_event by) j w))) \<longrightarrow>
    find_element d locator timeout w =
      (Inl (Exn Exception (''Could Not Find Element with locator '' @ locator
              @ '' due to error Message: Timed out after '' @ show_nat timeout
              @ '' seconds while waiting to find the element with locator '' @ locator
              @ '' '' @ [CHR 0x0A] @ '' '')),
       polled (presence_event by) (Suc (2 * timeout)) w) \<and>
    wait_till_element_is_present d locator timeout w =
      (Inl (Exn TimeoutException []), polled (presence_event by) (Suc (2 * timeout)) w))"
proof (intro conjI impI)
  let ?ev = "presence_event by"
  let ?m = "presence_poll d by"
  {
    assume h: "(\<forall>j<k. absorbed [NoSuchElementException] (?m (polled ?ev j w))) \<and>
      k \<le> 2 * timeout \<and> ?m (polled ?ev k w) = Inr (Some el)"
    then have u: "\<And>message. until [] timeout ?m ?ev message w = (Inr el, logged ?ev (polled ?ev k w))"
      using until_found[of k "[]" ?m ?ev w timeout el] by simp
    show "find_element d locator timeout w = (Inr el, logged ?ev (polled ?ev k w))"
      by (simp add: find_element_def assms u del: show_nat.simps)
    show "wait_till_element_is_present d locator timeout w = (Inr el, logged ?ev (polled ?ev k w))"
      by (simp add: wait_till_element_is_present_def assms u)
  }
  {
    assume h: "\<forall>j\<le>2 * timeout. absorbed [NoSuchElementException] (?m (polled ?ev j w))"
    then have u: "\<And>message. until [] timeout ?m ?ev message w =
        (Inl (Exn TimeoutException message), polled ?ev (Suc (2 * timeout)) w)"
      using until_timeout[of timeout "[]" ?m ?ev w] by simp
    show "find_element d locator timeout w =
      (Inl (Exn Exception (''Could Not Find Element with locator '' @ locator
              @ '' due to error Message: Timed out after '' @ show_nat timeout
              @ '' seconds while waiting to find the element with locator '' @ locator
              @ '' '' @ [CHR 0x0A] @ '' '')),
       polled ?ev (Suc (2 * timeout)) w)"
      by (simp add: find_element_def assms u exn_str_def del: show_nat.simps polled.simps)
    show "wait_till_element_is_present d locator timeout w =
      (Inl (Exn TimeoutException []), polled ?ev (Suc (2 * timeout)) w)"
      by (simp add: wait_till_element_is_present_def assms u del: polled.simps)
  }
qed

theorem presence_wait_outcomes_witness:
  "find_element late_page ''id@@x'' 5 start =
     (Inr (WebElement 1),
      \<lparr>clock = 1000, events = [Polled presence_of_element_located By_ID ''x'', Slept 500,
         Polled presence_of_element_located By_ID ''x'', Slept 500,
         Polled presence_of_element_located By_ID ''x'']\<rparr>) \<and>
   wait_till_element_is_present late_page ''id@@x'' 5 start =
     (Inr (WebElement 1),
      \<lparr>clock = 1000, events = [Polled presence_of_element_located By_ID ''x'', Slept 500,
         Polled presence_of_element_located By_ID ''x'', Slept 500,
         Polled presence_of_element_located By_ID ''x'']\<rparr>) \<and>
   find_element blank_page ''id@@x'' 1 start =
     (Inl (Exn Exception (''Could Not Find Element with locator id@@x due to error ''
        @ ''Message: Timed out after 1 seconds while waiting to find the element with locator id@@x ''
        @ [CHR 0x0A] @ '' '')),
      \<lparr>clock = 1500, events = [Polled presence_of_element_located By_ID ''x'', Slept 500,
         Polled presence_of_element_located By_ID ''x'', Slept 500,
         Polled presence_of_element_located By_ID ''x'', Slept 500]\<rparr>) \<and>
   wait_till_element_is_present blank_page ''id@@x'' 1 start =
     (Inl (Exn TimeoutException []),
      \<lparr>clock = 1500, events = [Polled presence_of_element_located By_ID ''x'', Slept 500,
         Polled presence_of_element_located By_ID ''x'', Slept 500,
         Polled presence_of_element_located By_ID ''x'', Slept 500]\<rparr>)"
proof -
  have found: "(\<forall>j<Suc (Suc 0). absorbed [NoSuchElementException]
        (presence_poll late_page (By_ID, ''x'') (polled (presence_event (By_ID, ''x'')) j start))) \<and>
      Suc (Suc 0) \<le> 2 * 5 \<and>
      presence_poll late_page (By_ID, ''x'') (polled (presence_event (By_ID, ''x'')) (Suc (Suc 0)) start)
        = Inr (Some (WebElement 1))"
    by (simp add: All_less_Suc absorbed_def late_page_def blank_page_def start_def sleep_def logged_def)
  have never: "\<forall>j\<le>2 * 1. absorbed [NoSuchElementException]
        (presence_poll blank_page (By_ID, ''x'') (polled (presence_event (By_ID, ''x'')) j start))"
    by (simp add: absorbed_def blank_page_def)
  from presence_wait_outcomes[OF get_by_id_x, of "Suc (Suc 0)" late_page start 5 "WebElement 1"] found
  have a: "find_element late_page ''id@@x'' 5 start =
      (Inr (WebElement 1), logged (presence_event (By_ID, ''x''))
         (polled (presence_event (By_ID, ''x'')) (Suc (Suc 0)) start)) \<and>
    wait_till_element_is_present late_page ''id@@x'' 5 start =
      (Inr (WebElement 1), logged (presence_event (By_ID, ''x''))
         (polled (presence_event (By_ID, ''x'')) (Suc (Suc 0)) start))"
    by blast
  from presence_wait_outcomes[OF get_by_id_x, of _ blank_page start 1] never
  have b: "find_element blank_page ''id@@x'' 1 start =
      (Inl (Exn Exception (''Could Not Find Element with locator '' @ ''id@@x''
              @ '' due to error Message: Timed out after '' @ show_nat 1
              @ '' seconds while waiting to find the element with locator '' @ ''id@@x''
              @ '' '' @ [CHR 0x0A] @ '' '')),
       polled (presence_event (By_ID, ''x'')) (Suc (2 * 1)) start) \<and>
    wait_till_element_is_present blank_page ''id@@x'' 1 start =
      (Inl (Exn TimeoutException []), polled (presence_event (By_ID, ''x'')) (Suc (2 * 1)) start)"
    by blast
  from a b show ?thesis
    by (simp add: start_def sleep_def logged_def numeral_3_eq_3)
qed

lemma absorbed_visible_list:
  "absorbed (NoSuchElementException #
      [NoSuchElementException, ElementNotVisibleException,
       ElementNotSelectableException, StaleElementReferenceException]) r =
   absorbed [NoSuchElementException, ElementNotVisibleException,
       ElementNotSelectableException, StaleElementReferenceException] r"
  by (simp add: absorbed_def split: sum.splits option.splits)

text \<open>
  Claim C8, as stated, fails: \<open>find_element\<close> gives no list of ignored exceptions, so a
  stale element reference at the first poll ends the wait at once, although the next
  poll would have found the element.
\<close>

theorem find_element_stale_counterexample:
  "find_element stale_then_present ''id@@x'' 5 start =
     (Inl (Exn Exception (''Could Not Find Element with locator id@@x due to error ''
        @ ''Message: stale element reference'' @ [CHR 0x0A] @ '' '')),
      \<lparr>clock = 0, events = [Polled presence_of_element_located By_ID ''x'']\<rparr>) \<and>
   presence_poll stale_then_present (By_ID, ''x'')
     (sleep 500 (logged (Polled presence_of_element_located By_ID ''x'') start)) =
     Inr (Some (WebElement 1))"
  by (simp add: find_element_def get_by_def split_sep_def until_def
        until_loop.simps stale_then_present_def blank_page_def start_def sleep_def logged_def
        exn_str_def)

text \<open>
  Claim C8, amended. For a locator that resolves: \<open>wait_till_element_is_visible\<close> absorbs
  a poll that finds nothing or raises one of its four listed exception classes (the stale
  element reference among them) and goes on polling, and an exception of any other class
  ends it at once; \<open>wait_till_element_is_present\<close> and \<open>find_element\<close> absorb only a
  poll that finds nothing, and every other exception of a poll, the stale element
  reference included, ends the wait at once (in \<open>find_element\<close> wrapped in an
  \<open>Exception\<close>).
\<close>

theorem wait_ignore_lists:
  assumes "get_by locator = Inr by"
  shows
  "((\<forall>j<k. absorbed [NoSuchElementException, ElementNotVisibleException,
                      ElementNotSelectableException, StaleElementReferenceException]
             (visibility_poll d by (polled (visibility_event by) j w))) \<and>
    k \<le> 2 * timeout \<and>
    visibility_poll d by (polled (visibility_event by) k w) = Inr (Some el) \<longrightarrow>
    wait_till_element_is_visible d locator timeout w =
      (Inr el, logged (visibility_event by) (polled (visibility_event by) k w))) \<and>
   ((\<forall>j<k. absorbed [NoSuchElementException, ElementNotVisibleException,
                      ElementNotSelectableException, StaleElementReferenceException]
             (visibility_poll d by (polled (visibility_event by) j w))) \<and>
    k \<le> 2 * timeout \<and>
    visibility_poll d by (polled (visibility_event by) k w) = Inl e \<and>
    cls e \<notin> {NoSuchElementException, ElementNotVisibleException,
               ElementNotSelectableException, StaleElementReferenceException} \<longrightarrow>
    wait_till_element_is_visible d locator timeout w =
      (Inl e, logged (visibility_event by) (polled (visibility_event by) k w))) \<and>
   ((\<forall>j<k. absorbed [NoSuchElementException]
             (presence_poll d by (polled (presence_event by) j w))) \<and>
    k \<le> 2 * timeout \<and>
    presence_poll d by (polled (presence_event by) k w) = Inl e \<and>
    cls e \<noteq> NoSuchElementException \<longrightarrow>
    wait_till_element_is_present d locator timeout w =
      (Inl e, logged (presence_event by) (polled (presence_event by) k w)) \<and>
    find_element d locator timeout w =
      (Inl (Exn Exception (''Could Not Find Element with locator '' @ locator
              @ '' due to error '' @ exn_str e @ '' '')),
       logged (presence_event by) (polled (presence_event by) k w)))"
proof (intro conjI impI)
  let ?ev = "visibility_event by"
  let ?m = "visibility_poll d by"
  let ?four = "[NoSuchElementException, ElementNotVisibleException,
                ElementNotSelectableException, StaleElementReferenceException]"
  {
    assume h: "(\<forall>j<k. absorbed ?four (?m (polled ?ev j w))) \<and>
      k \<le> 2 * timeout \<and> ?m (polled ?ev k w) = Inr (Some el)"
    then have "until ?four timeout ?m ?ev [] w = (Inr el, logged ?ev (polled ?ev k w))"
      using until_found[of k ?four ?m ?ev w timeout el "[]"]
      by (simp add: absorbed_visible_list)
    then show "wait_till_element_is_visible d locator timeout w =
        (Inr el, logged ?ev (polled ?ev k w))"
      by (simp add: wait_till_element_is_visible_def assms)
  }
  {
    assume h: "(\<forall>j<k. absorbed ?four (?m (polled ?ev j w))) \<and>
      k \<le> 2 * timeout \<and> ?m (polled ?ev k w) = Inl e \<and>
      cls e \<notin> {NoSuchElementException, ElementNotVisibleException,
               ElementNotSelectableException, StaleElementReferenceException}"
    then have "cls e \<notin> set (NoSuchElementException # ?four)" by simp
    with h have "until ?four timeout ?m ?ev [] w = (Inl e, logged ?ev (polled ?ev k w))"
      using until_raised[of k ?four ?m ?ev w timeout e "[]"]
      by (simp add: absorbed_visible_list)
    then show "wait_till_element_is_visible d locator timeout w =
        (Inl e, logged ?ev (polled ?ev k w))"
      by (simp add: wait_till_element_is_visible_def assms)
  }
  let ?pev = "presence_event by"
  let ?pm = "presence_poll d by"
  {
    assume h: "(\<forall>j<k. absorbed [NoSuchElementException] (?pm (polled ?pev j w))) \<and>
      k \<le> 2 * timeout \<and> ?pm (polled ?pev k w) = Inl e \<and> cls e \<noteq> NoSuchElementException"
    then have u: "\<And>message. until [] timeout ?pm ?pev message w =
        (Inl e, logged ?pev (polled ?pev k w))"
      using until_raised[of k "[]" ?pm ?pev w timeout e] by simp
    show "wait_till_element_is_present d locator timeout w =
        (Inl e, logged ?pev (polled ?pev k w))"
      by (simp add: wait_till_element_is_present_def assms u)
    show "find_element d locator timeout w =
      (Inl (Exn Exception (''Could Not Find Element with locator '' @ locator
              @ '' due to error '' @ exn_str e @ '' '')), logged ?pev (polled ?pev k w))"
      by (simp add: find_element_def assms u del: show_nat.simps)
  }
qed

theorem wait_ignore_lists_witness:
  "wait_till_element_is_visible stale_then_present ''id@@x'' 5 start =
     (Inr (WebElement 1),
      \<lparr>clock = 500, events = [Polled visibility_of_element_located By_ID ''x'', Slept 500,
         Polled visibility_of_element_located By_ID ''x'']\<rparr>) \<and>
   wait_till_element_is_visible broken_page ''id@@x'' 5 start =
     (Inl (Exn WebDriverException ''chrome not reachable''),
      \<lparr>clock = 0, events = [Polled visibility_of_element_located By_ID ''x'']\<rparr>) \<and>
   wait_till_element_is_present stale_then_present ''id@@x'' 5 start =
     (Inl (Exn StaleElementReferenceException ''stale element reference''),
      \<lparr>clock = 0, events = [Polled presence_of_element_located By_ID ''x'']\<rparr>) \<and>
   find_element stale_then_present ''id@@x'' 5 start =
     (Inl (Exn Exception (''Could Not Find Element with locator id@@x due to error ''
        @ ''Message: stale element reference'' @ [CHR 0x0A] @ '' '')),
      \<lparr>clock = 0, events = [Polled presence_of_element_located By_ID ''x'']\<rparr>)"
proof -
  have h1: "(\<forall>j<Suc 0. absorbed [NoSuchElementException, ElementNotVisibleException,
                      ElementNotSelectableException, StaleElementReferenceException]
        (visibility_poll stale_then_present (By_ID, ''x'')
           (polled (visibility_event (By_ID, ''x'')) j start))) \<and>
      Suc 0 \<le> 2 * 5 \<and>
      visibility_poll stale_then_present (By_ID, ''x'')
        (polled (visibility_event (By_ID, ''x'')) (Suc 0) start) = Inr (Some (WebElement 1))"
    by (simp add: absorbed_def stale_then_present_def blank_page_def start_def sleep_def logged_def)
  have h2: "(\<forall>j<0. absorbed [NoSuchElementException, ElementNotVisibleException,
                      ElementNotSelectableException, StaleElementReferenceException]
        (visibility_poll broken_page (By_ID, ''x'')
           (polled (visibility_event (By_ID, ''x'')) j start))) \<and>
      (0::nat) \<le> 2 * 5 \<and>
      visibility_poll broken_page (By_ID, ''x'')
        (polled (visibility_event (By_ID, ''x'')) 0 start)
        = Inl (Exn WebDriverException ''chrome not reachable'') \<and>
      cls (Exn WebDriverException ''chrome not reachable'') \<notin>
        {NoSuchElementException, ElementNotVisibleException,
         ElementNotSelectableException, StaleElementReferenceException}"
    by (simp add: broken_page_def blank_page_def)
  have h3: "(\<forall>j<0. absorbed [NoSuchElementException]
        (presence_poll stale_then_present (By_ID, ''x'')
           (polled (presence_event (By_ID, ''x'')) j start))) \<and>
      (0::nat) \<le> 2 * 5 \<and>
      presence_poll stale_then_present (By_ID, ''x'')
        (polled (presence_event (By_ID, ''x'')) 0 start)
        = Inl (Exn StaleElementReferenceException ''stale element reference'') \<and>
      cls (Exn StaleElementReferenceException ''stale element reference'')
        \<noteq> NoSuchElementException"
    by (simp add: stale_then_present_def blank_page_def start_def)
  from wait_ignore_lists[OF get_by_id_x, of "Suc 0" stale_then_present start 5 "WebElement 1"] h1
  have a: "wait_till_element_is_visible stale_then_present ''id@@x'' 5 start =
      (Inr (WebElement 1), logged (visibility_event (By_ID, ''x''))
         (polled (visibility_event (By_ID, ''x'')) (Suc 0) start))"
    by blast
  from wait_ignore_lists[OF get_by_id_x, of 0 broken_page start 5 _
         "Exn WebDriverException ''chrome not reachable''"] h2
  have b: "wait_till_element_is_visible broken_page ''id@@x'' 5 start =
      (Inl (Exn WebDriverException ''chrome not reachable''),
       logged (visibility_event (By_ID, ''x'')) (polled (visibility_event (By_ID, ''x'')) 0 start))"
    by blast
  from wait_ignore_lists[OF get_by_id_x, of 0 stale_then_present start 5 _
         "Exn StaleElementReferenceException ''stale element reference''"] h3
  have c: "wait_till_element_is_present stale_then_present ''id@@x'' 5 start =
      (Inl (Exn StaleElementReferenceException ''stale element reference''),
       logged (presence_event (By_ID, ''x'')) (polled (presence_event (By_ID, ''x'')) 0 start)) \<and>
    find_element stale_then_present ''id@@x'' 5 start =
      (Inl (Exn Exception (''Could Not Find Element with locator '' @ ''id@@x''
              @ '' due to error ''
              @ exn_str (Exn StaleElementReferenceException ''stale element reference'') @ '' '')),
       logged (presence_event (By_ID, ''x'')) (polled (presence_event (By_ID, ''x'')) 0 start))"
    by blast
  from a b c show ?thesis
    by (simp add: start_def sleep_def logged_def exn_str_def)
qed

section \<open>Properties of the presence checks\<close>





section \<open>Properties of the decorated actions\<close>

lemma find_element_error_cls:
  "find_element d locator timeout w = (Inl e, w') \<Longrightarrow> cls e = Exception"
  unfolding find_element_def
  by (auto split: sum.splits prod.splits)

lemma retry_final_run:
  "final_run f exceptions tries delay k w \<Longrightarrow>
   retry_internal f exceptions tries delay w = f (attempt f delay k w)"
  unfolding final_run_def
  using retry_first_settled[of k exceptions f delay w tries]
        retry_exhausted[of k exceptions f delay w tries]
  by blast

text \<open>Some run is the last one, and it is one of the first \<open>tries\<close> runs.\<close>

lemma final_run_exists:
  "0 < tries \<Longrightarrow> \<exists>k<tries. final_run f exceptions tries delay k w"
proof -
  assume pos: "0 < tries"
  show ?thesis
  proof (cases "\<forall>j<tries. transient exceptions (fst (f (attempt f delay j w)))")
    case True
    then have "final_run f exceptions tries delay (tries - 1) w"
      using pos by (simp add: final_run_def)
    then show ?thesis using pos by (intro exI[of _ "tries - 1"]) simp
  next
    case False
    define k where "k = (LEAST j. \<not> transient exceptions (fst (f (attempt f delay j w))))"
    from False obtain j where j: "j < tries"
      "\<not> transient exceptions (fst (f (attempt f delay j w)))" by blast
    have nk: "\<not> transient exceptions (fst (f (attempt f delay k w)))"
      unfolding k_def using j(2) by (rule LeastI)
    have kle: "k \<le> j" unfolding k_def using j(2) by (rule Least_le)
    have before: "\<forall>i<k. transient exceptions (fst (f (attempt f delay i w)))"
      unfolding k_def using not_less_Least by blast
    from nk kle before j(1) have "final_run f exceptions tries delay k w"
      by (simp add: final_run_def)
    with kle j(1) show ?thesis by (intro exI[of _ k]) simp
  qed
qed

text \<open>
  Claim C6, as stated, fails: a click that fails with a stale element reference, whose
  text does not contain \<open>is not clickable\<close>, does not propagate at once; the decorator
  lists that class too, and the click is run again.
\<close>

theorem click_stale_retried_counterexample:
  "el_click stale_click (WebElement 1) start =
     Inl (Exn StaleElementReferenceException ''stale element reference'') \<and>
   \<not> str_in ''is not clickable''
        (exn_str (Exn StaleElementReferenceException ''stale element reference'')) \<and>
   click stale_click (Elem (WebElement 1)) start =
     (Inr (), \<lparr>clock = 2000,
               events = [Clicked (WebElement 1), Slept 2000, Clicked (WebElement 1)]\<rparr>)"
  by (simp add: click_def click_body_def click_element_def call_def retry_internal.simps
        stale_click_def ready_page_def blank_page_def start_def sleep_def logged_def
        exn_str_def)

text \<open>
  Claim C6, amended. A failure of \<open>element.click()\<close> whose text contains
  \<open>is not clickable\<close> becomes \<open>NotClickableException\<close>, any other failure of it is raised
  as it is. A failure of \<open>click\<close> whose class is none of the three listed ones
  (\<open>StaleElementReferenceException\<close>, \<open>ElementNotVisibleException\<close>,
  \<open>NotClickableException\<close>) propagates at once, without a second run. A failure of a
  listed class is followed by a sleep of 2 seconds and another run, up to 5 runs; the
  result of \<open>click\<close> is the result of its last run, and one of the first 5 runs is
  the last. For a string locator the element is looked up first: a failed lookup is the
  failure of the run and propagates at once, and after a lookup that succeeds the run
  goes on as for the element found. A locator that is neither fails at once.
\<close>

theorem click_failure_handling:
  "(el_click d el w = Inl e \<longrightarrow>
      click_body d (Elem el) w =
        (Inl (if str_in ''is not clickable'' (exn_str e)
              then Exn NotClickableException [] else e),
         logged (Clicked el) w)) \<and>
   (fst (click_body d locator w) = Inl e' \<and>
    cls e' \<notin> {StaleElementReferenceException, ElementNotVisibleException,
                NotClickableException} \<longrightarrow>
      click d locator w = click_body d locator w) \<and>
   (final_run (click_body d locator)
      [StaleElementReferenceException, ElementNotVisibleException, NotClickableException]
      5 2 k w \<longrightarrow>
      click d locator w = click_body d locator (attempt (click_body d locator) 2 k w)) \<and>
   (\<exists>n<5. final_run (click_body d locator)
      [StaleElementReferenceException, ElementNotVisibleException, NotClickableException]
      5 2 n w) \<and>
   (el_click d el w = Inr u \<longrightarrow>
      click_body d (Elem el) w = (Inr (), logged (Clicked el) w)) \<and>
   (find_element d s 5 w = (Inl e1, w1) \<longrightarrow>
      click_body d (Str s) w = (Inl e1, w1) \<and> click d (Str s) w = (Inl e1, w1)) \<and>
   (find_element d s 5 w = (Inr el2, w2) \<longrightarrow>
      click_body d (Str s) w = click_element d el2 w2 \<and>
      click_body d (Str s) w = click_body d (Elem el2) w2) \<and>
   click_body d (Elem el) w = click_element d el w \<and>
   click d (Other r t) w =
     (Inl (Exn Exception (''Could not click on the element with locator '' @ r)), w)"
proof (intro conjI impI)
  let ?listed = "[StaleElementReferenceException, ElementNotVisibleException,
                  NotClickableException]"
  {
    assume "el_click d el w = Inl e"
    then show "click_body d (Elem el) w =
        (Inl (if str_in ''is not clickable'' (exn_str e)
              then Exn NotClickableException [] else e),
         logged (Clicked el) w)"
      by (simp add: click_body_def click_element_def call_def)
  }
  {
    assume h: "fst (click_body d locator w) = Inl e' \<and>
      cls e' \<notin> {StaleElementReferenceException, ElementNotVisibleException,
                  NotClickableException}"
    then have "\<not> transient ?listed (fst (click_body d locator w))"
      by (simp add: transient_def)
    then show "click d locator w = click_body d locator w"
      unfolding click_def by (simp add: retry_settled)
  }
  {
    assume "final_run (click_body d locator) ?listed 5 2 k w"
    then show "click d locator w = click_body d locator (attempt (click_body d locator) 2 k w)"
      unfolding click_def by (rule retry_final_run)
  }
  show "\<exists>n<5. final_run (click_body d locator) ?listed 5 2 n w"
    by (rule final_run_exists) simp
  {
    assume "el_click d el w = Inr u"
    then show "click_body d (Elem el) w = (Inr (), logged (Clicked el) w)"
      by (simp add: click_body_def click_element_def call_def)
  }
  {
    assume f: "find_element d s 5 w = (Inl e1, w1)"
    then show b: "click_body d (Str s) w = (Inl e1, w1)"
      by (simp add: click_body_def and_then_def)
    have "cls e1 = Exception" using f by (rule find_element_error_cls)
    then have "\<not> transient ?listed (fst (click_body d (Str s) w))"
      by (simp add: b transient_def)
    then show "click d (Str s) w = (Inl e1, w1)"
      unfolding click_def by (simp add: retry_settled b)
  }
  {
    assume f: "find_element d s 5 w = (Inr el2, w2)"
    then show "click_body d (Str s) w = click_element d el2 w2"
      by (simp add: click_body_def and_then_def)
    from f show "click_body d (Str s) w = click_body d (Elem el2) w2"
      by (simp add: click_body_def and_then_def)
  }
  show "click_body d (Elem el) w = click_element d el w"
    by (simp add: click_body_def)
  have "\<not> transient ?listed (fst (click_body d (Other r t) w))"
    by (simp add: click_body_def transient_def)
  then show "click d (Other r t) w =
     (Inl (Exn Exception (''Could not click on the element with locator '' @ r)), w)"
    unfolding click_def by (simp add: retry_settled click_body_def)
qed


theorem click_failure_handling_witness:
  "click_body busy_click (Elem (WebElement 1)) start =
     (Inl (Exn NotClickableException []),
      \<lparr>clock = 0, events = [Clicked (WebElement 1)]\<rparr>) \<and>
   click ready_page (Other ''None'' ''NoneType'') start =
     (Inl (Exn Exception ''Could not click on the element with locator None''), start) \<and>
   click busy_click (Elem (WebElement 1)) start =
     (Inr (), \<lparr>clock = 4000,
               events = [Clicked (WebElement 1), Slept 2000, Clicked (WebElement 1),
                         Slept 2000, Clicked (WebElement 1)]\<rparr>) \<and>
   click stuck_click (Elem (WebElement 1)) start =
     (Inl (Exn NotClickableException []),
      \<lparr>clock = 8000,
        events = [Clicked (WebElement 1), Slept 2000, Clicked (WebElement 1),
                  Slept 2000, Clicked (WebElement 1), Slept 2000, Clicked (WebElement 1),
                  Slept 2000, Clicked (WebElement 1)]\<rparr>) \<and>
   click_body ready_page (Elem (WebElement 1)) start =
     (Inr (), \<lparr>clock = 0, events = [Clicked (WebElement 1)]\<rparr>) \<and>
   click broken_page (Str ''id@@x'') start =
     (Inl (Exn Exception (''Could Not Find Element with locator id@@x due to error ''
        @ ''Message: chrome not reachable'' @ [CHR 0x0A] @ '' '')),
      \<lparr>clock = 0, events = [Polled presence_of_element_located By_ID ''x'']\<rparr>) \<and>
   click_body busy_click (Str ''id@@x'') start =
     (Inl (Exn NotClickableException []),
      \<lparr>clock = 0, events = [Polled presence_of_element_located By_ID ''x'',
                              Clicked (WebElement 1)]\<rparr>) \<and>
   click busy_click (Str ''id@@x'') start =
     (Inr (), \<lparr>clock = 4000,
               events = [Polled presence_of_element_located By_ID ''x'',
                         Clicked (WebElement 1), Slept 2000,
                         Polled presence_of_element_located By_ID ''x'',
                         Clicked (WebElement 1), Slept 2000,
                         Polled presence_of_element_located By_ID ''x'',
                         Clicked (WebElement 1)]\<rparr>)"
proof -
  let ?busy = "Exn WebDriverException ''Element <a> is not clickable at point (10, 20)''"
  let ?listed = "[StaleElementReferenceException, ElementNotVisibleException,
                  NotClickableException]"
  let ?none = "Exn Exception ''Could not click on the element with locator None''"
  let ?lost = "Exn Exception (''Could Not Find Element with locator id@@x due to error ''
        @ ''Message: chrome not reachable'' @ [CHR 0x0A] @ '' '')"
  let ?w1 = "\<lparr>clock = 0, events = [Polled presence_of_element_located By_ID ''x'']\<rparr>"
  note defs = click_body_def click_element_def call_def busy_click_def stuck_click_def
    ready_page_def broken_page_def blank_page_def start_def sleep_def logged_def exn_str_def
  note look = find_element_def get_by_id_x until_def until_loop.simps and_then_def
  have h1: "el_click busy_click (WebElement 1) start = Inl ?busy"
    by (simp add: defs)
  have h2: "fst (click_body ready_page (Other ''None'' ''NoneType'') start) = Inl ?none \<and>
      cls ?none \<notin> {StaleElementReferenceException, ElementNotVisibleException,
                     NotClickableException}"
    by (simp add: defs)
  have h3: "final_run (click_body busy_click (Elem (WebElement 1))) ?listed 5 2
      (Suc (Suc 0)) start"
    by (simp add: final_run_def All_less_Suc transient_def defs)
  have h4: "final_run (click_body stuck_click (Elem (WebElement 1))) ?listed 5 2
      (Suc (Suc (Suc (Suc 0)))) start"
    by (simp add: final_run_def All_less_Suc transient_def defs)
  have h5: "el_click ready_page (WebElement 1) start = Inr ()"
    by (simp add: defs)
  have h6: "find_element broken_page ''id@@x'' 5 start = (Inl ?lost, ?w1)"
    by (simp add: look defs)
  have h7: "find_element busy_click ''id@@x'' 5 start = (Inr (WebElement 1), ?w1)"
    by (simp add: look defs)
  have h8: "final_run (click_body busy_click (Str ''id@@x'')) ?listed 5 2
      (Suc (Suc 0)) start"
    by (simp add: final_run_def All_less_Suc transient_def look defs)
  from click_failure_handling[of busy_click "WebElement 1" start ?busy] h1
  have a: "click_body busy_click (Elem (WebElement 1)) start =
        (Inl (if str_in ''is not clickable'' (exn_str ?busy)
              then Exn NotClickableException [] else ?busy),
         logged (Clicked (WebElement 1)) start)"
    by blast
  from click_failure_handling[of ready_page _ start _ "Other ''None'' ''NoneType''" ?none] h2
  have b: "click ready_page (Other ''None'' ''NoneType'') start =
      click_body ready_page (Other ''None'' ''NoneType'') start"
    by blast
  from click_failure_handling[of busy_click _ start _ "Elem (WebElement 1)" _ "Suc (Suc 0)"] h3
  have c: "click busy_click (Elem (WebElement 1)) start =
      click_body busy_click (Elem (WebElement 1))
        (attempt (click_body busy_click (Elem (WebElement 1))) 2 (Suc (Suc 0)) start)"
    by blast
  from click_failure_handling[of stuck_click _ start _ "Elem (WebElement 1)" _
         "Suc (Suc (Suc (Suc 0)))"] h4
  have d: "click stuck_click (Elem (WebElement 1)) start =
      click_body stuck_click (Elem (WebElement 1))
        (attempt (click_body stuck_click (Elem (WebElement 1))) 2 (Suc (Suc (Suc (Suc 0)))) start)"
    by blast
  from click_failure_handling[of ready_page "WebElement 1" start _ _ _ _ "()"] h5
  have e: "click_body ready_page (Elem (WebElement 1)) start =
      (Inr (), logged (Clicked (WebElement 1)) start)"
    by blast
  from click_failure_handling[of broken_page _ start _ _ _ _ _ "''id@@x''" ?lost ?w1] h6
  have f: "click broken_page (Str ''id@@x'') start = (Inl ?lost, ?w1)"
    by blast
  from click_failure_handling[of busy_click _ start _ _ _ _ _ "''id@@x''" _ _
         "WebElement 1" ?w1] h7
  have g: "click_body busy_click (Str ''id@@x'') start =
      click_body busy_click (Elem (WebElement 1)) ?w1"
    by blast
  from click_failure_handling[of busy_click _ start _ "Str ''id@@x''" _ "Suc (Suc 0)"] h8
  have h: "click busy_click (Str ''id@@x'') start =
      click_body busy_click (Str ''id@@x'')
        (attempt (click_body busy_click (Str ''id@@x'')) 2 (Suc (Suc 0)) start)"
    by blast
  have a': "click_body busy_click (Elem (WebElement 1)) start =
     (Inl (Exn NotClickableException []),
      \<lparr>clock = 0, events = [Clicked (WebElement 1)]\<rparr>)"
    using a by (simp add: start_def logged_def exn_str_def)
  have b': "click ready_page (Other ''None'' ''NoneType'') start = (Inl ?none, start)"
    using b by (simp add: click_body_def)
  have c': "click busy_click (Elem (WebElement 1)) start =
     (Inr (), \<lparr>clock = 4000,
               events = [Clicked (WebElement 1), Slept 2000, Clicked (WebElement 1),
                         Slept 2000, Clicked (WebElement 1)]\<rparr>)"
    using c by (simp add: defs)
  have d': "click stuck_click (Elem (WebElement 1)) start =
     (Inl (Exn NotClickableException []),
      \<lparr>clock = 8000,
        events = [Clicked (WebElement 1), Slept 2000, Clicked (WebElement 1),
                  Slept 2000, Clicked (WebElement 1), Slept 2000, Clicked (WebElement 1),
                  Slept 2000, Clicked (WebElement 1)]\<rparr>)"
    using d by (simp add: defs)
  have e': "click_body ready_page (Elem (WebElement 1)) start =
     (Inr (), \<lparr>clock = 0, events = [Clicked (WebElement 1)]\<rparr>)"
    using e by (simp add: start_def logged_def)
  have g': "click_body busy_click (Str ''id@@x'') start =
     (Inl (Exn NotClickableException []),
      \<lparr>clock = 0, events = [Polled presence_of_element_located By_ID ''x'',
                              Clicked (WebElement 1)]\<rparr>)"
    using g by (simp add: defs)
  have h': "click busy_click (Str ''id@@x'') start =
     (Inr (), \<lparr>clock = 4000,
               events = [Polled presence_of_element_located By_ID ''x'',
                         Clicked (WebElement 1), Slept 2000,
                         Polled presence_of_element_located By_ID ''x'',
                         Clicked (WebElement 1), Slept 2000,
                         Polled presence_of_element_located By_ID ''x'',
                         Clicked (WebElement 1)]\<rparr>)"
    using h by (simp add: look defs)
  from a' b' c' d' e' f g' h' show ?thesis by blast
qed

lemma set_field_body_error_cls:
  "fst (set_field_body d locator element_value w) = Inl e \<Longrightarrow> cls e = Exception"
  unfolding set_field_body_def
  by (auto split: sum.splits prod.splits dest: find_element_error_cls)

text \<open>
  The body of \<open>set_field\<close> raises nothing but \<open>Exception\<close>, which its decorator does not
  list: \<open>set_field\<close> always makes exactly one run.
\<close>

lemma set_field_single_run:
  "set_field d locator element_value w = set_field_body d locator element_value w"
proof -
  have "\<not> transient [StaleElementReferenceException]
           (fst (set_field_body d locator element_value w))"
    using set_field_body_error_cls[of d locator element_value w]
    by (auto simp: transient_def split: sum.splits)
  then show ?thesis
    unfolding set_field_def by (simp add: retry_settled)
qed

text \<open>\<open>get_attribute\<close> is run again as its decorator says.\<close>

lemma get_attribute_runs:
  "final_run (get_attribute_body d locator attribute) [StaleElementReferenceException] 5 2 k w \<Longrightarrow>
   get_attribute d locator attribute w =
   get_attribute_body d locator attribute
     (attempt (get_attribute_body d locator attribute) 2 k w)"
  unfolding get_attribute_def by (rule retry_final_run)

text \<open>
  Claim C5 says that \<open>set_field\<close>, like \<open>click\<close> and \<open>get_attribute\<close>, is run again when
  a listed transient error is raised. On the code it is not: here the first
  \<open>send_keys\<close> of the element raises the listed \<open>StaleElementReferenceException\<close>;
  \<open>set_field\<close> makes one run, without a sleep, and raises an \<open>Exception\<close>, although a
  second run two seconds later would have written the field.
\<close>

theorem set_field_stale_not_retried:
  "el_send_keys stale_keys (WebElement 1) [Keys_CONTROL, ''a'']
     \<lparr>clock = 0, events = [Polled presence_of_element_located By_ID ''name'']\<rparr> =
     Inl (Exn StaleElementReferenceException ''stale element reference'') \<and>
   set_field stale_keys ''id@@name'' ''abc'' start =
     (Inl (Exn Exception (''Could not write on the the element <WebElement> due to ''
        @ ''Message: stale element reference'' @ [CHR 0x0A])),
      \<lparr>clock = 0,
        events = [Polled presence_of_element_located By_ID ''name'',
                  SentKeys (WebElement 1) [Keys_CONTROL, ''a'']]\<rparr>) \<and>
   set_field_body stale_keys ''id@@name'' ''abc''
     (sleep 2000
        \<lparr>clock = 0,
          events = [Polled presence_of_element_located By_ID ''name'',
                    SentKeys (WebElement 1) [Keys_CONTROL, ''a'']]\<rparr>) =
     (Inr (WebElement 1),
      \<lparr>clock = 3000,
        events = [Polled presence_of_element_located By_ID ''name'',
                  SentKeys (WebElement 1) [Keys_CONTROL, ''a''], Slept 2000,
                  Polled presence_of_element_located By_ID ''name'',
                  SentKeys (WebElement 1) [Keys_CONTROL, ''a''], Cleared (WebElement 1),
                  Slept 1000, Clicked (WebElement 1), SentKeys (WebElement 1) [''abc'']]\<rparr>)"
  by (simp add: set_field_def set_field_body_def retry_internal.simps find_element_def
        get_by_def split_sep_def until_def until_loop.simps and_then_def call_def
        stale_keys_def ready_page_def blank_page_def start_def sleep_def logged_def
        exn_str_def)

end
